theory Spec2Isabelle
  imports Main
begin

section \<open>Values, closures and the host's timers\<close>

text \<open>
  The repository is a scheduling layer over the host's timer primitives
  (\<^verbatim>\<open>setTimeout\<close>, \<^verbatim>\<open>setInterval\<close>, \<^verbatim>\<open>clearTimeout\<close>, \<^verbatim>\<open>clearInterval\<close>).
  The embedding is a state-passing one: every method takes the world and returns the
  world it leaves behind. JavaScript numbers are modelled as \<open>int\<close> (no NaN, no
  fractions); an optional value (\<^verbatim>\<open>id?: number\<close>) is an \<open>option\<close>, \<open>None\<close> being
  \<^verbatim>\<open>undefined\<close>.
\<close>

datatype error = TaskError | TypeError

record ScheduleOptions =
  initialDelay :: "int option"
  period :: "int option"

text \<open>The operator \<^verbatim>\<open>x ?? d\<close>.\<close>

definition nullish :: "'a option \<Rightarrow> 'a \<Rightarrow> 'a" where
  "nullish x d = (case x of None \<Rightarrow> d | Some v \<Rightarrow> v)"

text \<open>The truthiness test \<^verbatim>\<open>if (id)\<close> on an optional number.\<close>

definition truthy :: "int option \<Rightarrow> bool" where
  "truthy x = (case x of None \<Rightarrow> False | Some i \<Rightarrow> i \<noteq> 0)"

text \<open>
  A handle as a closure can hold it: the sentinel, the handle \<^verbatim>\<open>DefaultScheduler.schedule\<close>
  returned for a timer, or a reference to a task object.
\<close>

datatype handle =
    RejectedH
  | TimeoutH int
  | PeriodicTaskH nat
  | WorkerTaskH nat
  | WorkerPeriodicTaskH nat

text \<open>
  \<^verbatim>\<open>type Runnable = () => void\<close>. A task closure is a piece of the caller's code: its
  body is a sequence of statements, each either code of the caller's own (it reads the
  clock, changes the caller's state \<open>'u\<close>, takes some time, and returns or throws) or a
  call on the public interface through an object the closure has captured: the
  scheduler, a worker, a handle. A statement that throws ends the closure.
\<close>

datatype 'u stmt =
    Own "int \<Rightarrow> 'u \<Rightarrow> 'u \<times> int \<times> error option"
  | Shutdown nat
  | Dispose handle
  | Schedule "'u stmt list" "int option"
  | SchedulePeriodically "'u stmt list" "ScheduleOptions option"
  | CreateWorker
  | WorkerSchedule nat "'u stmt list" "int option"
  | WorkerSchedulePeriodically nat "'u stmt list" ScheduleOptions

type_synonym 'u Runnable = "'u stmt list"

text \<open>
  What the code hands to the host as a timer callback. Three of them are arrow
  closures, which keep the variables and the \<^verbatim>\<open>this\<close> of the place they were written
  in; three are method values read off an object (\<^verbatim>\<open>workerTask.run\<close>,
  \<^verbatim>\<open>periodicTask.run\<close>), which are the bare functions of the class and carry no
  receiver.
\<close>

datatype 'u callback =
    Task "'u Runnable"
  | PeriodicFirst "'u Runnable" nat ScheduleOptions
  | WorkerPeriodicFirst nat "'u Runnable" nat ScheduleOptions
  | PeriodicTask_run_fn
  | WorkerTask_run_fn
  | WorkerPeriodicTask_run_fn

record 'u timer =
  repeating :: bool
  due :: int
  every :: int
  handler :: "'u callback"

record DefaultWorker =
  shutdown :: bool
  timeouts :: "int list"
  intervals :: "int list"

record 'u PeriodicTask =
  task_pt :: "'u Runnable"
  initialId :: "int option"
  periodId :: "int option"

record 'u WorkerPeriodicTask = "'u PeriodicTask" +
  parent_wpt :: nat

record 'u WorkerTask =
  id_wt :: "int option"
  parent_wt :: nat
  task_wt :: "'u Runnable"

text \<open>
  The world: the host's clock and table of armed timers, the objects the code has
  allocated (a reference is an index into the list of its class), and the state the
  task closures act on.
\<close>

record 'u world =
  now :: int
  next_id :: int
  armed :: "int \<rightharpoonup> 'u timer"
  workers :: "DefaultWorker list"
  ptasks :: "'u PeriodicTask list"
  wtasks :: "'u WorkerTask list"
  wptasks :: "'u WorkerPeriodicTask list"
  user :: 'u

text \<open>
  Modelled from the spec: the host's timer backend, which is not code of this
  repository (section 6: schedule-once, schedule-repeating, cancel-by-handle, behind
  a virtual clock). Identifiers are handed out by a counter; a negative delay counts
  as none; both cancel operations take any identifier and ignore one that is not armed.
\<close>

definition setTimeout :: "'u callback \<Rightarrow> int \<Rightarrow> 'u world \<Rightarrow> int \<times> 'u world" where
  "setTimeout f delay w =
     (next_id w,
      w\<lparr>next_id := next_id w + 1,
        armed := (armed w)(next_id w \<mapsto>
          \<lparr>repeating = False, due = now w + max 0 delay, every = max 0 delay, handler = f\<rparr>)\<rparr>)"

definition setInterval :: "'u callback \<Rightarrow> int \<Rightarrow> 'u world \<Rightarrow> int \<times> 'u world" where
  "setInterval f delay w =
     (next_id w,
      w\<lparr>next_id := next_id w + 1,
        armed := (armed w)(next_id w \<mapsto>
          \<lparr>repeating = True, due = now w + max 0 delay, every = max 0 delay, handler = f\<rparr>)\<rparr>)"

definition clearTimeout :: "int option \<Rightarrow> 'u world \<Rightarrow> 'u world" where
  "clearTimeout ident w =
     (case ident of None \<Rightarrow> w | Some i \<Rightarrow> w\<lparr>armed := (armed w)(i := None)\<rparr>)"

definition clearInterval :: "int option \<Rightarrow> 'u world \<Rightarrow> 'u world" where
  "clearInterval ident w =
     (case ident of None \<Rightarrow> w | Some i \<Rightarrow> w\<lparr>armed := (armed w)(i := None)\<rparr>)"

section \<open>disposable.ts\<close>

record 's CallbackDisposable =
  callback :: "('s \<Rightarrow> 's \<times> error option) option"

text \<open>
  \<^verbatim>\<open>dispose(): void { this.#callback?.(); }\<close> The method returns the object as it
  leaves it, the state and the error of the closure.
\<close>

definition CallbackDisposable_dispose ::
  "'s CallbackDisposable \<Rightarrow> 's \<Rightarrow> 's CallbackDisposable \<times> 's \<times> error option" where
  "CallbackDisposable_dispose this s =
     (case callback this of
        None \<Rightarrow> (this, s, None)
      | Some f \<Rightarrow> (case f s of (s', e) \<Rightarrow> (this, s', e)))"

text \<open>Calling \<^verbatim>\<open>dispose()\<close> \<open>n\<close> times in a row, stopping at the first error.\<close>

fun dispose_times ::
  "nat \<Rightarrow> 's CallbackDisposable \<Rightarrow> 's \<Rightarrow> 's CallbackDisposable \<times> 's \<times> error option" where
  "dispose_times 0 this s = (this, s, None)"
| "dispose_times (Suc n) this s =
     (case CallbackDisposable_dispose this s of
        (this', s', None) \<Rightarrow> dispose_times n this' s'
      | (this', s', Some e) \<Rightarrow> (this', s', Some e))"

text \<open>The values of the interface \<^verbatim>\<open>Disposable\<close> that the schedulers return.\<close>

datatype 'u Disposable =
    Callback "'u world CallbackDisposable"
  | PeriodicTaskRef nat
  | WorkerTaskRef nat
  | WorkerPeriodicTaskRef nat

text \<open>\<^verbatim>\<open>static REJECTED: Disposable = new CallbackDisposable(() => {})\<close>\<close>

definition REJECTED :: "'u Disposable" where
  "REJECTED = Callback \<lparr>callback = Some (\<lambda>w. (w, None))\<rparr>"

section \<open>schedulers.ts: the worker's bookkeeping\<close>

text \<open>\<^verbatim>\<open>Array.prototype.indexOf\<close> and \<^verbatim>\<open>splice(idx, 1)\<close> for \<open>idx \<ge> 0\<close>.\<close>

fun indexOf :: "int list \<Rightarrow> int \<Rightarrow> int" where
  "indexOf [] x = - 1"
| "indexOf (y # ys) x =
     (if y = x then 0 else (let i = indexOf ys x in if i < 0 then - 1 else i + 1))"

definition splice1 :: "int list \<Rightarrow> int \<Rightarrow> int list" where
  "splice1 xs idx = take (nat idx) xs @ drop (nat idx + 1) xs"

definition DefaultWorker_removeTimeout :: "nat \<Rightarrow> int option \<Rightarrow> 'u world \<Rightarrow> 'u world" where
  "DefaultWorker_removeTimeout this ident w =
     (if truthy ident then
        (let idx = indexOf (timeouts (workers w ! this)) (nullish ident 0) in
         if idx \<ge> 0 then
           w\<lparr>workers := (workers w)[this := (workers w ! this)
               \<lparr>timeouts := splice1 (timeouts (workers w ! this)) idx\<rparr>]\<rparr>
         else w)
      else w)"

definition DefaultWorker_removeInterval :: "nat \<Rightarrow> int option \<Rightarrow> 'u world \<Rightarrow> 'u world" where
  "DefaultWorker_removeInterval this ident w =
     (if truthy ident then
        (let idx = indexOf (intervals (workers w ! this)) (nullish ident 0) in
         if idx \<ge> 0 then
           w\<lparr>workers := (workers w)[this := (workers w ! this)
               \<lparr>intervals := splice1 (intervals (workers w ! this)) idx\<rparr>]\<rparr>
         else w)
      else w)"

definition DefaultWorker_shutdown :: "nat \<Rightarrow> 'u world \<Rightarrow> 'u world" where
  "DefaultWorker_shutdown this w =
     (let w1 = w\<lparr>workers := (workers w)[this := (workers w ! this)\<lparr>shutdown := True\<rparr>]\<rparr>;
          w2 = fold (\<lambda>it. clearInterval (Some it)) (intervals (workers w1 ! this)) w1;
          w3 = fold (\<lambda>it. clearTimeout (Some it)) (timeouts (workers w2 ! this)) w2
      in w3\<lparr>workers := (workers w3)[this := (workers w3 ! this)
               \<lparr>timeouts := [], intervals := []\<rparr>]\<rparr>)"

section \<open>schedulers.ts: disposing a task\<close>

definition PeriodicTask_dispose :: "nat \<Rightarrow> 'u world \<Rightarrow> 'u world" where
  "PeriodicTask_dispose this w =
     (let w1 = (if truthy (initialId (ptasks w ! this))
                then clearTimeout (initialId (ptasks w ! this)) w else w)
      in if truthy (periodId (ptasks w1 ! this))
         then clearInterval (periodId (ptasks w1 ! this)) w1 else w1)"

definition WorkerTask_dispose :: "nat \<Rightarrow> 'u world \<Rightarrow> 'u world" where
  "WorkerTask_dispose this w =
     (let w1 = clearTimeout (id_wt (wtasks w ! this)) w
      in DefaultWorker_removeTimeout (parent_wt (wtasks w1 ! this)) (id_wt (wtasks w1 ! this)) w1)"

definition WorkerPeriodicTask_dispose :: "nat \<Rightarrow> 'u world \<Rightarrow> 'u world" where
  "WorkerPeriodicTask_dispose this w =
     (let w1 = (if truthy (initialId (wptasks w ! this)) then
                  (let initialId' = initialId (wptasks w ! this);
                       w' = clearTimeout initialId' w
                   in DefaultWorker_removeTimeout (parent_wpt (wptasks w' ! this)) initialId' w')
                else w)
      in if periodId (wptasks w1 ! this) \<noteq> None then
           (let periodId' = periodId (wptasks w1 ! this);
                w' = clearInterval periodId' w1
            in DefaultWorker_removeInterval (parent_wpt (wptasks w' ! this)) periodId' w')
         else w1)"

text \<open>\<^verbatim>\<open>dispose()\<close> through the interface: dispatch on the class of the object.\<close>

fun dispose :: "'u Disposable \<Rightarrow> 'u world \<Rightarrow> 'u world \<times> error option" where
  "dispose (Callback d) w = (case CallbackDisposable_dispose d w of (d', w', e) \<Rightarrow> (w', e))"
| "dispose (PeriodicTaskRef p) w = (PeriodicTask_dispose p w, None)"
| "dispose (WorkerTaskRef t) w = (WorkerTask_dispose t w, None)"
| "dispose (WorkerPeriodicTaskRef p) w = (WorkerPeriodicTask_dispose p w, None)"

section \<open>schedulers.ts: scheduling\<close>

definition DefaultScheduler_schedule ::
  "'u Runnable \<Rightarrow> int option \<Rightarrow> 'u world \<Rightarrow> 'u Disposable \<times> 'u world" where
  "DefaultScheduler_schedule task delay w =
     (case setTimeout (Task task) (nullish delay 0) w of
        (ident, w1) \<Rightarrow>
          (Callback \<lparr>callback = Some (\<lambda>s. (clearTimeout (Some ident) s, None))\<rparr>, w1))"

definition DefaultScheduler_schedulePeriodically ::
  "'u Runnable \<Rightarrow> ScheduleOptions option \<Rightarrow> 'u world \<Rightarrow> 'u Disposable \<times> 'u world" where
  "DefaultScheduler_schedulePeriodically task options w =
     (let opts = nullish options \<lparr>initialDelay = None, period = None\<rparr>;
          periodicTask = length (ptasks w);
          w1 = w\<lparr>ptasks := ptasks w @ [\<lparr>task_pt = task, initialId = None, periodId = None\<rparr>]\<rparr>
      in case setTimeout (PeriodicFirst task periodicTask opts) (nullish (initialDelay opts) 0) w1 of
           (ident, w2) \<Rightarrow>
             (PeriodicTaskRef periodicTask,
              w2\<lparr>ptasks := (ptasks w2)[periodicTask :=
                   (ptasks w2 ! periodicTask)\<lparr>initialId := Some ident\<rparr>]\<rparr>))"

definition DefaultScheduler_now :: "'u world \<Rightarrow> int" where
  "DefaultScheduler_now w = now w"

definition DefaultScheduler_createWorker :: "'u world \<Rightarrow> nat \<times> 'u world" where
  "DefaultScheduler_createWorker w =
     (length (workers w),
      w\<lparr>workers := workers w @ [\<lparr>shutdown = False, timeouts = [], intervals = []\<rparr>]\<rparr>)"

definition DefaultWorker_schedule ::
  "nat \<Rightarrow> 'u Runnable \<Rightarrow> int option \<Rightarrow> 'u world \<Rightarrow> 'u Disposable \<times> 'u world" where
  "DefaultWorker_schedule this task delay w =
     (if shutdown (workers w ! this) then (REJECTED, w)
      else
        (let workerTask = length (wtasks w);
             w1 = w\<lparr>wtasks := wtasks w @ [\<lparr>id_wt = None, parent_wt = this, task_wt = task\<rparr>]\<rparr>
         in case setTimeout WorkerTask_run_fn (nullish delay 0) w1 of
              (ident, w2) \<Rightarrow>
                (let w3 = w2\<lparr>workers := (workers w2)[this := (workers w2 ! this)
                            \<lparr>timeouts := timeouts (workers w2 ! this) @ [ident]\<rparr>]\<rparr>
                 in (WorkerTaskRef workerTask,
                     w3\<lparr>wtasks := (wtasks w3)[workerTask :=
                          (wtasks w3 ! workerTask)\<lparr>id_wt := Some ident\<rparr>]\<rparr>))))"

definition DefaultWorker_schedulePeriodically ::
  "nat \<Rightarrow> 'u Runnable \<Rightarrow> ScheduleOptions \<Rightarrow> 'u world \<Rightarrow> 'u Disposable \<times> 'u world" where
  "DefaultWorker_schedulePeriodically this task options w =
     (if shutdown (workers w ! this) then (REJECTED, w)
      else
        (let workerTask = length (wptasks w);
             w1 = w\<lparr>wptasks := wptasks w @
                    [\<lparr>task_pt = task, initialId = None, periodId = None, parent_wpt = this\<rparr>]\<rparr>
         in case setTimeout (WorkerPeriodicFirst this task workerTask options)
                   (nullish (initialDelay options) 0) w1 of
              (initialId', w2) \<Rightarrow>
                (WorkerPeriodicTaskRef workerTask,
                 w2\<lparr>workers := (workers w2)[this := (workers w2 ! this)
                      \<lparr>timeouts := timeouts (workers w2 ! this) @ [initialId']\<rparr>]\<rparr>)))"

section \<open>Running a task closure\<close>

text \<open>The value of the interface \<^verbatim>\<open>Disposable\<close> behind a handle.\<close>

fun disposable_of :: "handle \<Rightarrow> 'u Disposable" where
  "disposable_of RejectedH = REJECTED"
| "disposable_of (TimeoutH i) = Callback \<lparr>callback = Some (\<lambda>s. (clearTimeout (Some i) s, None))\<rparr>"
| "disposable_of (PeriodicTaskH p) = PeriodicTaskRef p"
| "disposable_of (WorkerTaskH t) = WorkerTaskRef t"
| "disposable_of (WorkerPeriodicTaskH p) = WorkerPeriodicTaskRef p"

text \<open>Whether the object behind a handle exists.\<close>

fun live :: "handle \<Rightarrow> 'u world \<Rightarrow> bool" where
  "live RejectedH w = True"
| "live (TimeoutH i) w = True"
| "live (PeriodicTaskH p) w = (p < length (ptasks w))"
| "live (WorkerTaskH t) w = (t < length (wtasks w))"
| "live (WorkerPeriodicTaskH p) w = (p < length (wptasks w))"

text \<open>
  One statement of a closure. A call on an object that does not exist (the variable
  holds \<^verbatim>\<open>undefined\<close>) throws a TypeError. The handle a scheduling call returns is
  dropped here; a later statement names it by its reference.
\<close>

fun run_stmt :: "'u stmt \<Rightarrow> 'u world \<Rightarrow> 'u world \<times> error option" where
  "run_stmt (Own f) w =
     (case f (now w) (user w) of
        (u, dt, e) \<Rightarrow> (w\<lparr>user := u, now := now w + max 0 dt\<rparr>, e))"
| "run_stmt (Shutdown k) w =
     (if k < length (workers w) then (DefaultWorker_shutdown k w, None) else (w, Some TypeError))"
| "run_stmt (Dispose h) w =
     (if live h w then dispose (disposable_of h) w else (w, Some TypeError))"
| "run_stmt (Schedule task delay) w = (snd (DefaultScheduler_schedule task delay w), None)"
| "run_stmt (SchedulePeriodically task options) w =
     (snd (DefaultScheduler_schedulePeriodically task options w), None)"
| "run_stmt CreateWorker w = (snd (DefaultScheduler_createWorker w), None)"
| "run_stmt (WorkerSchedule k task delay) w =
     (if k < length (workers w) then (snd (DefaultWorker_schedule k task delay w), None)
      else (w, Some TypeError))"
| "run_stmt (WorkerSchedulePeriodically k task options) w =
     (if k < length (workers w) then (snd (DefaultWorker_schedulePeriodically k task options w), None)
      else (w, Some TypeError))"

text \<open>Calling a task closure: its statements in order, up to the first that throws.\<close>

fun call :: "'u Runnable \<Rightarrow> 'u world \<Rightarrow> 'u world \<times> error option" where
  "call [] w = (w, None)"
| "call (s # ss) w =
     (case run_stmt s w of
        (w1, None) \<Rightarrow> call ss w1
      | (w1, Some e) \<Rightarrow> (w1, Some e))"

section \<open>schedulers.ts: running a task\<close>

text \<open>
  The receiver of a method call. A method called on the object it was read from has
  that object as \<^verbatim>\<open>this\<close>. A method value handed to the host as a callback is called
  by the host with an object of the host's own (its global object) as \<^verbatim>\<open>this\<close>: that
  object has none of the fields of the task classes, so reading a public field of it
  gives \<^verbatim>\<open>undefined\<close>, calling \<^verbatim>\<open>undefined\<close> throws a TypeError, and reading a private
  field (\<^verbatim>\<open>#task\<close>, \<^verbatim>\<open>#parent\<close>) of it throws a TypeError.
\<close>

datatype receiver = Self nat | Foreign

text \<open>
  \<^verbatim>\<open>run() { try { this._task(); } catch (_) { this.dispose(); } }\<close>
  On a foreign receiver \<^verbatim>\<open>this._task\<close> is undefined, the call throws, the handler
  runs, \<^verbatim>\<open>this.dispose\<close> is undefined as well, and that second TypeError leaves the
  method.
\<close>

definition PeriodicTask_run :: "receiver \<Rightarrow> 'u world \<Rightarrow> 'u world \<times> error option" where
  "PeriodicTask_run this w =
     (case this of
        Foreign \<Rightarrow> (w, Some TypeError)
      | Self p \<Rightarrow>
          (case call (task_pt (ptasks w ! p)) w of
             (w1, None) \<Rightarrow> (w1, None)
           | (w1, Some e) \<Rightarrow> (PeriodicTask_dispose p w1, None)))"

text \<open>
  \<^verbatim>\<open>run() { try { this.#task(); } finally { this.#parent.removeTimeout(this.id); } }\<close>
  On a foreign receiver both private reads throw; the one of the \<^verbatim>\<open>finally\<close> block
  leaves the method.
\<close>

definition WorkerTask_run :: "receiver \<Rightarrow> 'u world \<Rightarrow> 'u world \<times> error option" where
  "WorkerTask_run this w =
     (case this of
        Foreign \<Rightarrow> (w, Some TypeError)
      | Self t \<Rightarrow>
          (case call (task_wt (wtasks w ! t)) w of
             (w1, e) \<Rightarrow>
               (DefaultWorker_removeTimeout (parent_wt (wtasks w1 ! t)) (id_wt (wtasks w1 ! t)) w1,
                e)))"

text \<open>
  \<^verbatim>\<open>run() { try { this._task(); } catch (_) { if (this.periodId) { ... } } }\<close>
  On a foreign receiver the call throws, the handler reads \<^verbatim>\<open>this.periodId\<close>, which
  is undefined, and the method returns.
\<close>

definition WorkerPeriodicTask_run :: "receiver \<Rightarrow> 'u world \<Rightarrow> 'u world \<times> error option" where
  "WorkerPeriodicTask_run this w =
     (case this of
        Foreign \<Rightarrow> (w, None)
      | Self p \<Rightarrow>
          (case call (task_pt (wptasks w ! p)) w of
             (w1, None) \<Rightarrow> (w1, None)
           | (w1, Some e) \<Rightarrow>
               (if truthy (periodId (wptasks w1 ! p)) then
                  (let periodId' = periodId (wptasks w1 ! p);
                       w2 = clearInterval periodId' w1
                   in DefaultWorker_removeInterval (parent_wpt (wptasks w2 ! p)) periodId' w2)
                else w1, None)))"

section \<open>The host firing a timer\<close>

text \<open>
  What a callback does when the host calls it. The arrow closures run their body; a
  method value runs the method with the host's object as receiver.
\<close>

fun invoke :: "'u callback \<Rightarrow> 'u world \<Rightarrow> 'u world \<times> error option" where
  "invoke (Task task) w = call task w"
| "invoke (PeriodicFirst task periodicTask options) w =
     (case call task w of
        (w1, Some e) \<Rightarrow> (w1, Some e)
      | (w1, None) \<Rightarrow>
          (case setInterval PeriodicTask_run_fn (nullish (period options) 0) w1 of
             (ident, w2) \<Rightarrow>
               (w2\<lparr>ptasks := (ptasks w2)[periodicTask :=
                     (ptasks w2 ! periodicTask)\<lparr>periodId := Some ident\<rparr>]\<rparr>, None)))"
| "invoke (WorkerPeriodicFirst this task workerTask options) w =
     (case call task w of
        (w1, Some e) \<Rightarrow> (w1, Some e)
      | (w1, None) \<Rightarrow>
          (case setInterval WorkerPeriodicTask_run_fn (nullish (period options) 0) w1 of
             (periodId', w2) \<Rightarrow>
               (let w3 = w2\<lparr>workers := (workers w2)[this := (workers w2 ! this)
                           \<lparr>intervals := intervals (workers w2 ! this) @ [periodId']\<rparr>]\<rparr>
                in (w3\<lparr>wptasks := (wptasks w3)[workerTask :=
                         (wptasks w3 ! workerTask)\<lparr>periodId := Some periodId'\<rparr>]\<rparr>, None))))"
| "invoke PeriodicTask_run_fn w = PeriodicTask_run Foreign w"
| "invoke WorkerTask_run_fn w = WorkerTask_run Foreign w"
| "invoke WorkerPeriodicTask_run_fn w = WorkerPeriodicTask_run Foreign w"

text \<open>
  Modelled from the spec: the host dispatching the armed timer \<open>i\<close> (section 5: an
  event delivered later on the execution context). The clock is at least the due time,
  a one-shot timer leaves the table before its callback runs, a repeating one is due
  again one period after its last due time. An identifier that is not armed fires
  nothing. The error returned is the one that reaches the host.
\<close>

definition fire :: "int \<Rightarrow> 'u world \<Rightarrow> 'u world \<times> error option" where
  "fire i w =
     (case armed w i of
        None \<Rightarrow> (w, None)
      | Some t \<Rightarrow>
          invoke (handler t)
            (w\<lparr>now := max (now w) (due t),
               armed := (if repeating t then (armed w)(i \<mapsto> t\<lparr>due := due t + every t\<rparr>)
                         else (armed w)(i := None))\<rparr>))"

section \<open>Runs of the system\<close>

text \<open>
  The world before anything is scheduled; \<open>n\<close> is the first identifier the host will
  hand out (1 on the hosts the code is written for).
\<close>

definition boot :: "int \<Rightarrow> 'u \<Rightarrow> 'u world" where
  "boot n u = \<lparr>now = 0, next_id = n, armed = Map.empty, workers = [], ptasks = [],
               wtasks = [], wptasks = [], user = u\<rparr>"



text \<open>The flag of worker \<open>k\<close> is set.\<close>

definition shut_down :: "nat \<Rightarrow> 'u world \<Rightarrow> bool" where
  "shut_down k w \<longleftrightarrow> k < length (workers w) \<and> shutdown (workers w ! k)"

text \<open>Task closures and a cleanup closure used at concrete inputs.\<close>

definition ticking :: "int \<Rightarrow> (int list) Runnable" where
  "ticking dt = [Own (\<lambda>t log. (log @ [t], dt, None))]"

definition failing :: "(int list) Runnable" where
  "failing = [Own (\<lambda>t log. (log @ [t], 0, Some TaskError))]"


definition zero_world :: "(int list) world" where
  "zero_world =
     (let w = snd (DefaultWorker_schedulePeriodically 0 (ticking 0)
                \<lparr>initialDelay = Some 10, period = Some 50\<rparr>
                (snd (DefaultScheduler_createWorker (boot 0 []))))
      in w\<lparr>wptasks := (wptasks w)[0 := (wptasks w ! 0)\<lparr>initialId := Some 0\<rparr>]\<rparr>)"

definition counting :: "nat CallbackDisposable" where
  "counting = \<lparr>callback = Some (\<lambda>n. (Suc n, None))\<rparr>"

section \<open>Facts about the bookkeeping\<close>

lemma indexOf_nonneg_iff: "0 \<le> indexOf xs x \<longleftrightarrow> x \<in> set xs"
  by (induction xs) (auto simp: Let_def)

lemma indexOf_bound: "indexOf xs x < int (length xs)"
  by (induction xs) (auto simp: Let_def)

lemma splice1_indexOf: "x \<in> set xs \<Longrightarrow> splice1 xs (indexOf xs x) = remove1 x xs"
proof (induction xs)
  case Nil
  then show ?case by simp
next
  case (Cons y ys)
  show ?case
  proof (cases "y = x")
    case True
    then show ?thesis by (simp add: splice1_def)
  next
    case False
    with Cons.prems have mem: "x \<in> set ys" by simp
    then have nn: "0 \<le> indexOf ys x" by (simp add: indexOf_nonneg_iff)
    then have "nat (indexOf ys x + 1) = Suc (nat (indexOf ys x))" by simp
    with False nn Cons.IH [OF mem] show ?thesis
      by (simp add: splice1_def Let_def)
  qed
qed

lemma removeTimeout_eq:
  "DefaultWorker_removeTimeout k x w =
     (case x of None \<Rightarrow> w
      | Some i \<Rightarrow> if i \<noteq> 0 \<and> i \<in> set (timeouts (workers w ! k))
          then w\<lparr>workers := (workers w)[k := (workers w ! k)\<lparr>timeouts := remove1 i (timeouts (workers w ! k))\<rparr>]\<rparr>
          else w)"
  by (simp add: DefaultWorker_removeTimeout_def truthy_def nullish_def Let_def
      indexOf_nonneg_iff splice1_indexOf split: option.split)

lemma removeInterval_eq:
  "DefaultWorker_removeInterval k x w =
     (case x of None \<Rightarrow> w
      | Some i \<Rightarrow> if i \<noteq> 0 \<and> i \<in> set (intervals (workers w ! k))
          then w\<lparr>workers := (workers w)[k := (workers w ! k)\<lparr>intervals := remove1 i (intervals (workers w ! k))\<rparr>]\<rparr>
          else w)"
  by (simp add: DefaultWorker_removeInterval_def truthy_def nullish_def Let_def
      indexOf_nonneg_iff splice1_indexOf split: option.split)

lemma fold_clearTimeout:
  "fold (\<lambda>it. clearTimeout (Some it)) xs w = w\<lparr>armed := (\<lambda>i. if i \<in> set xs then None else armed w i)\<rparr>"
proof (induction xs arbitrary: w)
  case Nil
  then show ?case by simp
next
  case (Cons x xs)
  let ?w = "clearTimeout (Some x) w"
  have eq: "(\<lambda>i. if i \<in> set xs then None else armed ?w i) =
        (\<lambda>i. if i \<in> set (x # xs) then None else armed w i)"
    by (auto simp: clearTimeout_def)
  have "fold (\<lambda>it. clearTimeout (Some it)) (x # xs) w = fold (\<lambda>it. clearTimeout (Some it)) xs ?w"
    by simp
  also have "\<dots> = ?w\<lparr>armed := (\<lambda>i. if i \<in> set xs then None else armed ?w i)\<rparr>"
    by (rule Cons)
  also have "\<dots> = ?w\<lparr>armed := (\<lambda>i. if i \<in> set (x # xs) then None else armed w i)\<rparr>"
    by (simp only: eq)
  also have "\<dots> = w\<lparr>armed := (\<lambda>i. if i \<in> set (x # xs) then None else armed w i)\<rparr>"
    by (simp add: clearTimeout_def)
  finally show ?case .
qed

lemma fold_clearInterval:
  "fold (\<lambda>it. clearInterval (Some it)) xs w = w\<lparr>armed := (\<lambda>i. if i \<in> set xs then None else armed w i)\<rparr>"
proof (induction xs arbitrary: w)
  case Nil
  then show ?case by simp
next
  case (Cons x xs)
  let ?w = "clearInterval (Some x) w"
  have eq: "(\<lambda>i. if i \<in> set xs then None else armed ?w i) =
        (\<lambda>i. if i \<in> set (x # xs) then None else armed w i)"
    by (auto simp: clearInterval_def)
  have "fold (\<lambda>it. clearInterval (Some it)) (x # xs) w = fold (\<lambda>it. clearInterval (Some it)) xs ?w"
    by simp
  also have "\<dots> = ?w\<lparr>armed := (\<lambda>i. if i \<in> set xs then None else armed ?w i)\<rparr>"
    by (rule Cons)
  also have "\<dots> = ?w\<lparr>armed := (\<lambda>i. if i \<in> set (x # xs) then None else armed w i)\<rparr>"
    by (simp only: eq)
  also have "\<dots> = w\<lparr>armed := (\<lambda>i. if i \<in> set (x # xs) then None else armed w i)\<rparr>"
    by (simp add: clearInterval_def)
  finally show ?case .
qed

lemma worker_all_fields:
  "(r::DefaultWorker)\<lparr>shutdown := a, timeouts := b, intervals := c\<rparr> =
     \<lparr>shutdown = a, timeouts = b, intervals = c\<rparr>"
  by simp

lemma shutdown_eq:
  "k < length (workers w) \<Longrightarrow> DefaultWorker_shutdown k w =
     w\<lparr>armed := (\<lambda>i. if i \<in> set (timeouts (workers w ! k)) \<or> i \<in> set (intervals (workers w ! k))
                      then None else armed w i),
       workers := (workers w)[k := \<lparr>shutdown = True, timeouts = [], intervals = []\<rparr>]\<rparr>"
proof -
  assume k: "k < length (workers w)"
  have eq: "(\<lambda>i. if i \<in> set (timeouts (workers w ! k)) then None
             else if i \<in> set (intervals (workers w ! k)) then None else armed w i) =
        (\<lambda>i. if i \<in> set (timeouts (workers w ! k)) \<or> i \<in> set (intervals (workers w ! k))
                      then None else armed w i)"
    by auto
  show ?thesis using k
    by (simp add: DefaultWorker_shutdown_def Let_def fold_clearTimeout fold_clearInterval eq worker_all_fields cong: if_cong)
qed

subsection \<open>The shutdown flag is never reset\<close>

lemma shut_down_cong: "workers w' = workers w \<Longrightarrow> shut_down k w' = shut_down k w"
  by (simp add: shut_down_def)


lemma shut_down_setTimeout: "shut_down k (snd (setTimeout f d w)) = shut_down k w"
  by (rule shut_down_cong) (simp add: setTimeout_def)























section \<open>The claims\<close>

lemmas evals = boot_def ticking_def failing_def fire_def setTimeout_def setInterval_def
  clearTimeout_def clearInterval_def nullish_def truthy_def
  DefaultScheduler_schedulePeriodically_def DefaultScheduler_schedule_def
  DefaultScheduler_createWorker_def DefaultWorker_schedule_def
  DefaultWorker_schedulePeriodically_def DefaultWorker_removeTimeout_def
  DefaultWorker_removeInterval_def DefaultWorker_shutdown_def PeriodicTask_run_def
  PeriodicTask_dispose_def WorkerTask_run_def WorkerTask_dispose_def WorkerPeriodicTask_run_def
  WorkerPeriodicTask_dispose_def REJECTED_def CallbackDisposable_dispose_def splice1_def



subsection \<open>CallbackDisposable\<close>

text \<open>The method never assigns the field: the closure is still there after a call.\<close>

lemma CallbackDisposable_keeps_callback:
  "callback (fst (CallbackDisposable_dispose this s)) = callback this"
  by (simp add: CallbackDisposable_dispose_def split: option.split prod.split)

text \<open>
  C1 says that calling \<^verbatim>\<open>dispose()\<close> \<open>N \<ge> 1\<close> times on a CallbackDisposable has the
  effect of calling it once, because the reference to the cleanup closure is cleared by
  the first call. The code runs the closure on every call: with a closure that counts
  its runs, one call leaves the count at 1 and two calls leave it at 2, and the
  reference is the same after the call as before.
\<close>

theorem CallbackDisposable_dispose_runs_closure_every_time:
  "fst (snd (dispose_times 1 counting 0)) = 1 \<and>
   fst (snd (dispose_times 2 counting 0)) = 2 \<and>
   callback (fst (dispose_times 1 counting 0)) = callback counting"
  by (simp add: counting_def CallbackDisposable_dispose_def numeral_2_eq_2)

subsection \<open>A worker that has been shut down\<close>



subsection \<open>Errors of a periodic task\<close>

text \<open>
  Called on its own object, \<^verbatim>\<open>run\<close> of either periodic class lets no error out: the
  \<^verbatim>\<open>catch\<close> block swallows what the closure throws.
\<close>

lemma periodic_run_on_its_receiver_swallows:
  "snd (PeriodicTask_run (Self p) w) = None"
  "snd (WorkerPeriodicTask_run (Self p) w) = None"
  by (simp_all add: PeriodicTask_run_def WorkerPeriodicTask_run_def split: prod.split option.split)

text \<open>
  C3 says that an error raised by the closure of a periodic task during any firing, the
  initial delayed one included, is caught and swallowed by this layer. In the code the
  closure of the initial timer calls the task bare, outside any \<^verbatim>\<open>try\<close>: for a task that
  throws, scheduled with initial delay 0 and period 10 on the scheduler or on a worker,
  the error of the first firing is what the host gets back.
\<close>

theorem periodic_initial_firing_error_reaches_host:
  "(case DefaultScheduler_schedulePeriodically failing
           (Some \<lparr>initialDelay = Some 0, period = Some 10\<rparr>) (boot 1 []) of
      (h, w) \<Rightarrow> snd (fire 1 w) = Some TaskError \<and> user (fst (fire 1 w)) = [0]) \<and>
   (case DefaultWorker_schedulePeriodically 0 failing
           \<lparr>initialDelay = Some 0, period = Some 10\<rparr>
           (snd (DefaultScheduler_createWorker (boot 1 []))) of
      (h, w) \<Rightarrow> snd (fire 1 w) = Some TaskError \<and> user (fst (fire 1 w)) = [0])"
  by (simp add: evals)

subsection \<open>The tracking collections\<close>

text \<open>
  C4 says that the two collections of a worker hold at every moment exactly the
  identifiers of its armed timers, an entry leaving when its timer fires or is
  cancelled, and that after a firing of a worker's periodic task throws the collections
  hold no identifier of that task. In the code nothing removes the identifier of the
  initial timer of a periodic task: after that timer (identifier 1) has fired it is no
  longer armed and still in the one-shot collection, whether the task returned or threw.
\<close>

theorem worker_periodic_initial_id_stays_tracked:
  "(case DefaultWorker_schedulePeriodically 0 (ticking 0)
           \<lparr>initialDelay = Some 0, period = Some 10\<rparr>
           (snd (DefaultScheduler_createWorker (boot 1 []))) of
      (h, w) \<Rightarrow>
        user (fst (fire 1 w)) = [0] \<and> armed (fst (fire 1 w)) 1 = None \<and>
        timeouts (workers (fst (fire 1 w)) ! 0) = [1]) \<and>
   (case DefaultWorker_schedulePeriodically 0 failing
           \<lparr>initialDelay = Some 0, period = Some 10\<rparr>
           (snd (DefaultScheduler_createWorker (boot 1 []))) of
      (h, w) \<Rightarrow>
        snd (fire 1 w) = Some TaskError \<and> armed (fst (fire 1 w)) 1 = None \<and>
        timeouts (workers (fst (fire 1 w)) ! 0) = [1])"
  by (simp add: evals)

subsection \<open>Fixed rate\<close>

text \<open>
  C5 says that the \<open>N\<close>th firing of a periodic task happens at \<open>d + (N - 1) * p\<close> after
  the schedule time, however long the firings take. With \<open>d = 10\<close>, \<open>p = 50\<close> and a task
  that logs the clock and takes 5: the first firing runs the task at 10; the recurring
  timer is armed after the task has returned, so it is due at 65 and not at 60; and when
  it fires, at 65 and at 115, the host gets a TypeError and the task is not run, the log
  still holding the one entry of the first firing.
\<close>

theorem periodic_second_firing_not_fixed_rate:
  "(case DefaultScheduler_schedulePeriodically (ticking 5)
           (Some \<lparr>initialDelay = Some 10, period = Some 50\<rparr>) (boot 1 []) of
      (h, w) \<Rightarrow>
        (let w1 = fst (fire 1 w); w2 = fst (fire 2 w1); w3 = fst (fire 2 w2) in
         user w1 = [10] \<and> map_option due (armed w1 2) = Some 65 \<and>
         map_option handler (armed w1 2) = Some PeriodicTask_run_fn \<and>
         snd (fire 2 w1) = Some TypeError \<and> now w2 = 65 \<and> user w2 = [10] \<and>
         snd (fire 2 w2) = Some TypeError \<and> now w3 = 115 \<and> user w3 = [10]))"
  by (simp add: evals Let_def)

subsection \<open>Disposing a periodic task\<close>

text \<open>
  The scheduler's own periodic task records its initial timer in \<^verbatim>\<open>initialId\<close>, and
  disposing it before the first firing cancels that timer.
\<close>

lemma scheduler_periodic_dispose_pending_cancels:
  assumes "next_id w \<noteq> 0"
  shows "case DefaultScheduler_schedulePeriodically task options w of
           (h, w1) \<Rightarrow> armed w1 (next_id w) \<noteq> None \<and> armed (fst (dispose h w1)) (next_id w) = None"
  using assms
  by (simp add: DefaultScheduler_schedulePeriodically_def Let_def setTimeout_def
      PeriodicTask_dispose_def truthy_def clearTimeout_def clearInterval_def)

text \<open>
  Once the initial timer of a worker's periodic task has fired, the task object holds the
  identifier of the recurring timer, and disposing the handle cancels and de-registers it.
\<close>

lemma worker_periodic_dispose_recurring_cancels:
  "(case DefaultWorker_schedulePeriodically 0 (ticking 0)
           \<lparr>initialDelay = Some 10, period = Some 50\<rparr>
           (snd (DefaultScheduler_createWorker (boot 1 []))) of
      (h, w) \<Rightarrow>
        (let w1 = fst (fire 1 w); w2 = fst (dispose h w1) in
         periodId (wptasks w1 ! 0) = Some 2 \<and> armed w1 2 \<noteq> None \<and>
         intervals (workers w1 ! 0) = [2] \<and>
         armed w2 2 = None \<and> intervals (workers w2 ! 0) = []))"
  by (simp add: evals Let_def)

text \<open>
  C6 says that the handle of a periodic task cancels whichever phase is active, and that
  disposing it before the initial firing cancels the one-shot timer so that the task
  never runs. The worker's \<^verbatim>\<open>schedulePeriodically\<close> keeps the identifier of the initial
  timer in a local constant and never stores it in the task object: disposing the
  handle while the task is pending changes nothing, the initial timer stays armed, and
  when it fires the task runs.
\<close>

theorem worker_periodic_dispose_pending_does_not_cancel:
  "(case DefaultWorker_schedulePeriodically 0 (ticking 0)
           \<lparr>initialDelay = Some 10, period = Some 50\<rparr>
           (snd (DefaultScheduler_createWorker (boot 1 []))) of
      (h, w) \<Rightarrow>
        h = WorkerPeriodicTaskRef 0 \<and> initialId (wptasks w ! 0) = None \<and>
        map_option handler (armed w 1) =
          Some (WorkerPeriodicFirst 0 (ticking 0) 0 \<lparr>initialDelay = Some 10, period = Some 50\<rparr>) \<and>
        dispose h w = (w, None) \<and> user (fst (fire 1 (fst (dispose h w)))) = [10])"
  by (simp add: evals Let_def)

subsection \<open>Shutdown\<close>

text \<open>
  What \<^verbatim>\<open>shutdown()\<close> does by itself: it sets the flag and leaves both collections
  empty, every identifier that was in either collection is no longer armed, and a second
  call right after the first changes nothing.
\<close>

lemma shutdown_effect:
  assumes "this < length (workers w)"
  shows "workers (DefaultWorker_shutdown this w) ! this =
           \<lparr>shutdown = True, timeouts = [], intervals = []\<rparr>"
    and "\<forall>i \<in> set (timeouts (workers w ! this)) \<union> set (intervals (workers w ! this)).
           armed (DefaultWorker_shutdown this w) i = None"
    and "DefaultWorker_shutdown this (DefaultWorker_shutdown this w) = DefaultWorker_shutdown this w"
proof -
  show "workers (DefaultWorker_shutdown this w) ! this =
           \<lparr>shutdown = True, timeouts = [], intervals = []\<rparr>"
    using assms by (simp add: shutdown_eq)
  show "\<forall>i \<in> set (timeouts (workers w ! this)) \<union> set (intervals (workers w ! this)).
           armed (DefaultWorker_shutdown this w) i = None"
    using assms by (simp add: shutdown_eq)
  have "this < length (workers (DefaultWorker_shutdown this w))"
    using assms by (simp add: shutdown_eq)
  then show "DefaultWorker_shutdown this (DefaultWorker_shutdown this w) = DefaultWorker_shutdown this w"
    using assms by (simp add: shutdown_eq [of this "DefaultWorker_shutdown this w"])
      (simp add: shutdown_eq)
qed

text \<open>
  C7 says that \<^verbatim>\<open>shutdown()\<close> sets the flag, cancels every identifier in both collections
  and empties them, that no task scheduled before and not yet fired runs afterwards, and
  that a second call is a no-op. The closure of the initial timer of a worker's periodic
  task arms the recurring timer and records it without looking at the flag: when the
  task itself calls \<^verbatim>\<open>shutdown()\<close> on its worker during the first firing, the firing
  leaves the worker with the flag set, the identifier 2 in the periodic collection and
  timer 2 armed, and a second \<^verbatim>\<open>shutdown()\<close> is not a no-op: it cancels timer 2 and
  empties the collection.
\<close>

theorem shutdown_inside_first_firing_is_followed_by_arming:
  "(case DefaultWorker_schedulePeriodically 0 [Shutdown 0]
           \<lparr>initialDelay = Some 0, period = Some 10\<rparr>
           (snd (DefaultScheduler_createWorker (boot 1 ([]::int list)))) of
      (h, w) \<Rightarrow>
        (let w1 = fst (fire 1 w); w2 = DefaultWorker_shutdown 0 w1 in
         snd (fire 1 w) = None \<and>
         workers w1 ! 0 = \<lparr>shutdown = True, timeouts = [], intervals = [2]\<rparr> \<and>
         map_option handler (armed w1 2) = Some WorkerPeriodicTask_run_fn \<and>
         workers w2 ! 0 = \<lparr>shutdown = True, timeouts = [], intervals = []\<rparr> \<and>
         armed w2 2 = None \<and> w2 \<noteq> w1))"
  by (auto simp add: evals Let_def dest: arg_cong [where f = "\<lambda>w. armed w 2"])

subsection \<open>A one-shot task of a worker\<close>

text \<open>
  Called on its own object, \<^verbatim>\<open>WorkerTask.run\<close> runs the closure and then takes the
  identifier, when it is not zero, out of the one-shot collection of the parent, whether
  the closure returned or threw.
\<close>

lemma WorkerTask_run_on_its_receiver:
  assumes "t < length (wtasks w)" "parent_wt (wtasks w ! t) < length (workers w)"
    and "id_wt (wtasks w ! t) = Some i" "i \<noteq> 0"
    and "task_wt (wtasks w ! t) = [Own f]" "f (now w) (user w) = (u, dt, e)"
  shows "user (fst (WorkerTask_run (Self t) w)) = u"
    and "snd (WorkerTask_run (Self t) w) = e"
    and "timeouts (workers (fst (WorkerTask_run (Self t) w)) ! parent_wt (wtasks w ! t)) =
           remove1 i (timeouts (workers w ! parent_wt (wtasks w ! t)))"
  using assms
  by (auto simp add: WorkerTask_run_def removeTimeout_eq remove1_idem split: option.split)

text \<open>
  C8 says that when the timer of a worker's one-shot task fires, \<^verbatim>\<open>WorkerTask.run\<close> runs
  the closure and then removes the identifier from the one-shot collection, whether the
  closure returns or throws. \<^verbatim>\<open>DefaultWorker.schedule\<close> hands the host the method value
  \<^verbatim>\<open>workerTask.run\<close> without its object: when the timer (identifier 1) fires, the host
  gets a TypeError, the closure has not run (the log is empty) and the identifier is
  still in the collection.
\<close>

theorem worker_task_firing_does_not_run_task:
  "(case DefaultWorker_schedule 0 (ticking 0) (Some 0)
           (snd (DefaultScheduler_createWorker (boot 1 []))) of
      (h, w) \<Rightarrow>
        timeouts (workers w ! 0) = [1] \<and>
        map_option handler (armed w 1) = Some WorkerTask_run_fn \<and>
        snd (fire 1 w) = Some TypeError \<and> user (fst (fire 1 w)) = [] \<and>
        timeouts (workers (fst (fire 1 w)) ! 0) = [1])"
  by (simp add: evals)

subsection \<open>The identifier zero\<close>

lemma timeouts_after_intervals_update:
  "timeouts (ws[j := (ws ! j)\<lparr>intervals := xs\<rparr>] ! k) = timeouts (ws ! k)"
  by (cases "j < length ws") (auto simp: nth_list_update list_update_beyond not_less)

text \<open>
  C9: the identifier zero is taken for an absent one. \<^verbatim>\<open>removeTimeout\<close> and
  \<^verbatim>\<open>removeInterval\<close> called with 0 or with \<^verbatim>\<open>undefined\<close> leave the world as it is, also
  when 0 is in the collection; and \<^verbatim>\<open>WorkerPeriodicTask.dispose\<close> on a task whose
  \<^verbatim>\<open>initialId\<close> is 0 removes nothing from any one-shot collection and, unless the
  recurring timer has the identifier 0 itself, leaves timer 0 as it was: the whole
  effect of the call is that of its second block, the one for \<^verbatim>\<open>periodId\<close>.
\<close>

theorem zero_identifier_taken_for_absent:
  "DefaultWorker_removeTimeout this (Some 0) w = w \<and>
   DefaultWorker_removeTimeout this None w = w \<and>
   DefaultWorker_removeInterval this (Some 0) w = w \<and>
   DefaultWorker_removeInterval this None w = w \<and>
   (initialId (wptasks w ! p) = Some 0 \<longrightarrow>
      WorkerPeriodicTask_dispose p w =
        (if periodId (wptasks w ! p) \<noteq> None then
           DefaultWorker_removeInterval (parent_wpt (wptasks w ! p)) (periodId (wptasks w ! p))
             (clearInterval (periodId (wptasks w ! p)) w)
         else w) \<and>
      (\<forall>k. timeouts (workers (WorkerPeriodicTask_dispose p w) ! k) = timeouts (workers w ! k)) \<and>
      (periodId (wptasks w ! p) \<noteq> Some 0 \<longrightarrow> armed (WorkerPeriodicTask_dispose p w) 0 = armed w 0))"
  apply (simp add: removeTimeout_eq removeInterval_eq WorkerPeriodicTask_dispose_def truthy_def
      Let_def clearInterval_def split: option.split)
  apply (auto simp: timeouts_after_intervals_update)
  done

theorem zero_identifier_taken_for_absent_witness:
  "initialId (wptasks zero_world ! 0) = Some 0 \<and> periodId (wptasks zero_world ! 0) \<noteq> Some 0 \<and>
   timeouts (workers zero_world ! 0) = [0] \<and> armed zero_world 0 \<noteq> None \<and>
   DefaultWorker_removeTimeout 0 (Some 0) zero_world = zero_world \<and>
   timeouts (workers (WorkerPeriodicTask_dispose 0 zero_world) ! 0) = [0] \<and>
   armed (WorkerPeriodicTask_dispose 0 zero_world) 0 \<noteq> None"
proof -
  have f: "initialId (wptasks zero_world ! 0) = Some 0" "periodId (wptasks zero_world ! 0) \<noteq> Some 0"
    "timeouts (workers zero_world ! 0) = [0]" "armed zero_world 0 \<noteq> None"
    by (simp_all add: zero_world_def evals Let_def)
  note t = zero_identifier_taken_for_absent [of 0 zero_world 0]
  from t have a: "DefaultWorker_removeTimeout 0 (Some 0) zero_world = zero_world" by blast
  from t f(1) have "timeouts (workers (WorkerPeriodicTask_dispose 0 zero_world) ! 0) =
      timeouts (workers zero_world ! 0)" by blast
  with f(3) have b: "timeouts (workers (WorkerPeriodicTask_dispose 0 zero_world) ! 0) = [0]"
    by simp
  from t f(1,2) have "armed (WorkerPeriodicTask_dispose 0 zero_world) 0 = armed zero_world 0"
    by blast
  with f(4) have c: "armed (WorkerPeriodicTask_dispose 0 zero_world) 0 \<noteq> None" by simp
  from f a b c show ?thesis by blast
qed

subsection \<open>Disposing after shutdown\<close>

lemma workers_after_removeTimeout:
  assumes "timeouts (workers w ! k) = []"
  shows "workers (DefaultWorker_removeTimeout j x w) ! k = workers w ! k"
  using assms by (cases "j = k") (simp_all add: removeTimeout_eq split: option.split)

lemma workers_after_removeInterval:
  assumes "intervals (workers w ! k) = []"
  shows "workers (DefaultWorker_removeInterval j x w) ! k = workers w ! k"
  using assms by (cases "j = k") (simp_all add: removeInterval_eq split: option.split)

lemma workers_after_clear:
  "workers (clearTimeout x w) = workers w" "workers (clearInterval x w) = workers w"
  by (simp_all add: clearTimeout_def clearInterval_def split: option.split)

text \<open>
  On a worker whose flag is set and whose collections are empty, disposing a handle that
  a worker has returned raises no error and leaves that worker as it is: removing an
  identifier that is not there is a no-op.
\<close>

lemma dispose_with_empty_collections:
  assumes "workers w ! k = \<lparr>shutdown = True, timeouts = [], intervals = []\<rparr>"
    and "d = REJECTED \<or> d = WorkerTaskRef t \<or> d = WorkerPeriodicTaskRef p"
  shows "snd (dispose d w) = None \<and>
         workers (fst (dispose d w)) ! k = \<lparr>shutdown = True, timeouts = [], intervals = []\<rparr>"
proof -
  have e: "timeouts (workers w ! k) = []" "intervals (workers w ! k) = []"
    using assms(1) by simp_all
  from assms(2) show ?thesis
  proof (elim disjE)
    assume "d = REJECTED"
    with assms(1) show ?thesis by (simp add: REJECTED_def CallbackDisposable_dispose_def)
  next
    assume "d = WorkerTaskRef t"
    with assms(1) e show ?thesis
      by (simp add: WorkerTask_dispose_def Let_def workers_after_removeTimeout workers_after_clear)
  next
    assume d: "d = WorkerPeriodicTaskRef p"
    define w1 where "w1 = (if truthy (initialId (wptasks w ! p)) then
         DefaultWorker_removeTimeout (parent_wpt (wptasks (clearTimeout (initialId (wptasks w ! p)) w) ! p))
           (initialId (wptasks w ! p)) (clearTimeout (initialId (wptasks w ! p)) w)
       else w)"
    have 1: "workers w1 ! k = workers w ! k"
      using e by (simp add: w1_def workers_after_removeTimeout workers_after_clear)
    have eq: "WorkerPeriodicTask_dispose p w =
        (if periodId (wptasks w1 ! p) \<noteq> None then
           DefaultWorker_removeInterval
             (parent_wpt (wptasks (clearInterval (periodId (wptasks w1 ! p)) w1) ! p))
             (periodId (wptasks w1 ! p)) (clearInterval (periodId (wptasks w1 ! p)) w1)
         else w1)"
      unfolding WorkerPeriodicTask_dispose_def Let_def w1_def ..
    have e1: "intervals (workers w1 ! k) = []" using 1 e by simp
    have "workers (WorkerPeriodicTask_dispose p w) ! k = workers w1 ! k"
      unfolding eq using e1 by (simp add: workers_after_removeInterval workers_after_clear)
    with 1 d assms(1) show ?thesis by simp
  qed
qed

text \<open>
  C10 says that disposing a task handle after the worker's \<^verbatim>\<open>shutdown()\<close> has completed
  leaves the worker unchanged, the flag set and both collections empty. When the task
  of a worker's periodic task calls \<^verbatim>\<open>shutdown()\<close> on its worker during the first
  firing, the closure of the initial timer goes on after the shutdown has completed: it
  arms the recurring timer 2 and puts it into the periodic collection. Disposing the
  handle afterwards raises no error, but it cancels timer 2 and takes it out of the
  collection: the collections were not empty and the worker is changed.
\<close>

theorem dispose_after_shutdown_inside_first_firing_changes_worker:
  "(case DefaultWorker_schedulePeriodically 0 [Shutdown 0]
           \<lparr>initialDelay = Some 0, period = Some 10\<rparr>
           (snd (DefaultScheduler_createWorker (boot 1 ([]::int list)))) of
      (h, w) \<Rightarrow>
        (let w1 = fst (fire 1 w); w2 = fst (dispose h w1) in
         h = WorkerPeriodicTaskRef 0 \<and>
         workers w1 ! 0 = \<lparr>shutdown = True, timeouts = [], intervals = [2]\<rparr> \<and>
         periodId (wptasks w1 ! 0) = Some 2 \<and> armed w1 2 \<noteq> None \<and>
         snd (dispose h w1) = None \<and>
         workers w2 ! 0 = \<lparr>shutdown = True, timeouts = [], intervals = []\<rparr> \<and>
         armed w2 2 = None))"
  by (simp add: evals Let_def)

end
